theory Spec2Isabelle
  imports Complex_Main "HOL-Library.Sublist" "HOL-Library.Multiset"
begin

section \<open>Data model\<close>

text \<open>
  The types of \<^verbatim>\<open>src/App.tsx\<close>. \<^verbatim>\<open>Marker\<close>, \<^verbatim>\<open>AnalysisConfig\<close> and \<^verbatim>\<open>ExportFormat\<close> are
  imported there from \<^verbatim>\<open>./types\<close>; their fields are the ones the object literals of
  \<^verbatim>\<open>App.tsx\<close> give them. A JavaScript number is modelled as a real: every double is a
  real. The export rounds its product as IEEE doubles do (\<open>to_double\<close> below); the timeline
  compares and stores numbers only, except for \<^verbatim>\<open>parseFloat\<close> in \<open>toFixed3\<close>, which is taken
  as exact. The field \<^verbatim>\<open>id\<close> is called \<open>id_m\<close>, since \<open>id\<close> is the identity function of HOL.
\<close>

record marker =
  id_m :: string
  time :: real
  label :: string
  color :: string

record analysis_config =
  sensitivity :: real
  minDistance :: real
  aggressiveMode :: bool

text \<open>The decoded audio of the Web Audio API: a sample rate and the samples of each channel.\<close>

record audio_buffer =
  sampleRate :: nat
  channelData :: "real list list"

text \<open>The \<^verbatim>\<open>useState\<close> cells of the component \<^verbatim>\<open>App\<close>, lines 8 to 20.\<close>

record app_state =
  "file" :: "string option"
  audioBuffer :: "audio_buffer option"
  markers :: "marker list"
  isAnalyzing :: bool
  showHelp :: bool
  selectedMarkerId :: "string option"
  config :: analysis_config
  currentTime :: real
  isPlaying :: bool

definition initial_state :: app_state where
  "initial_state =
     \<lparr>file = None, audioBuffer = None, markers = [], isAnalyzing = False, showHelp = False,
      selectedMarkerId = None,
      config = \<lparr>sensitivity = 7 / 10, minDistance = 1 / 4, aggressiveMode = False\<rparr>,
      currentTime = 0, isPlaying = False\<rparr>"

section \<open>Event handlers\<close>

text \<open>
  \<^verbatim>\<open>handleFileUpload\<close>, lines 36 to 46, in its two parts: what runs before the first
  \<^verbatim>\<open>await\<close>, and what runs once \<^verbatim>\<open>decodeAudioData\<close> has given the decoded buffer. The
  file's name stands for the file. Without a selected file the handler returns at once, and
  when the decoding fails the second part never runs.
\<close>

definition handleFileUpload :: "string \<Rightarrow> app_state \<Rightarrow> app_state" where
  "handleFileUpload selectedFile s = s\<lparr>file := Some selectedFile\<rparr>"

definition handleFileUpload_decoded :: "audio_buffer \<Rightarrow> app_state \<Rightarrow> app_state" where
  "handleFileUpload_decoded decodedBuffer s =
     s\<lparr>audioBuffer := Some decodedBuffer, markers := [], selectedMarkerId := None\<rparr>"

text \<open>
  \<^verbatim>\<open>runAnalysis\<close>, lines 48 to 56, in its two parts: the synchronous part, which returns
  early without an audio buffer and raises the busy flag otherwise, and the callback given
  to \<^verbatim>\<open>setTimeout\<close>, which runs later. \<^verbatim>\<open>analyzeBeats\<close> belongs to
  \<^verbatim>\<open>./services/audioEngine\<close>; the list it returns is the argument \<open>detected\<close> of the callback.
\<close>

definition runAnalysis :: "app_state \<Rightarrow> app_state" where
  "runAnalysis s = (if audioBuffer s = None then s else s\<lparr>isAnalyzing := True\<rparr>)"

definition runAnalysis_timeout :: "marker list \<Rightarrow> app_state \<Rightarrow> app_state" where
  "runAnalysis_timeout detected s = s\<lparr>markers := detected, isAnalyzing := False\<rparr>"

text \<open>
  \<^verbatim>\<open>togglePlayback\<close>, lines 58 to 93, as far as the state cells go: the audio nodes and
  the refs that hold the playback offset are outside the model, and the progress callback
  is the event \<open>Progress\<close> below.
\<close>

definition togglePlayback :: "app_state \<Rightarrow> app_state" where
  "togglePlayback s = (if audioBuffer s = None then s else s\<lparr>isPlaying := \<not> isPlaying s\<rparr>)"

text \<open>\<^verbatim>\<open>deleteMarker\<close>, lines 95 to 99.\<close>

definition deleteMarker :: "string \<Rightarrow> app_state \<Rightarrow> app_state" where
  "deleteMarker i s =
     (let s' = s\<lparr>markers := filter (\<lambda>m. id_m m \<noteq> i) (markers s)\<rparr>
      in if selectedMarkerId s = Some i then s'\<lparr>selectedMarkerId := None\<rparr> else s')"

text \<open>
  \<^verbatim>\<open>parseFloat(x.toFixed(3))\<close>: \<^verbatim>\<open>toFixed\<close> takes the sign off, picks the integer \<open>n\<close> with
  \<open>n / 1000\<close> nearest to the number, the larger one of two, and prints it with three
  decimals; \<^verbatim>\<open>parseFloat\<close> reads the number back.
\<close>

definition toFixed3 :: "real \<Rightarrow> real" where
  "toFixed3 x =
     (if x < 0 then - (of_int \<lfloor>- x * 1000 + 1 / 2\<rfloor> / 1000)
      else of_int \<lfloor>x * 1000 + 1 / 2\<rfloor> / 1000)"

text \<open>
  \<^verbatim>\<open>addMarkerManual\<close>, lines 101 to 109. The first argument is the string that
  \<^verbatim>\<open>Math.random().toString(36).substr(2, 9)\<close> comes to. \<^verbatim>\<open>Array.prototype.sort\<close> is stable,
  and so is \<open>sort_key\<close>.
\<close>

definition newMarker :: "string \<Rightarrow> real \<Rightarrow> marker" where
  "newMarker rnd t =
     \<lparr>id_m = rnd, time = toFixed3 t, label = ''Manual Beat'', color = ''#ec4899''\<rparr>"

definition addMarkerManual :: "string \<Rightarrow> app_state \<Rightarrow> app_state" where
  "addMarkerManual rnd s =
     s\<lparr>markers := sort_key time (markers s @ [newMarker rnd (currentTime s)])\<rparr>"

text \<open>\<^verbatim>\<open>jumpToMarker\<close>, lines 111 to 132, as far as the state cells go.\<close>

definition jumpToMarker :: "string \<Rightarrow> real \<Rightarrow> app_state \<Rightarrow> app_state" where
  "jumpToMarker i t s = s\<lparr>selectedMarkerId := Some i, currentTime := t\<rparr>"

text \<open>The handler of the button "Borrar Todo", line 398.\<close>

definition clearAll :: "app_state \<Rightarrow> app_state" where
  "clearAll s = s\<lparr>markers := [], selectedMarkerId := None\<rparr>"

text \<open>The handler of the button "Reiniciar", line 290.\<close>

definition restart :: "app_state \<Rightarrow> app_state" where
  "restart s =
     (let s1 = s\<lparr>currentTime := 0\<rparr>;
          s2 = (if isPlaying s then togglePlayback s1 else s1)
      in s2\<lparr>selectedMarkerId := None\<rparr>)"

section \<open>The component as a transition system\<close>

text \<open>
  One event for each piece of code that writes a state cell: the handlers above, with the
  two parts of \<^verbatim>\<open>handleFileUpload\<close> and of \<^verbatim>\<open>runAnalysis\<close> as events of their own, the progress
  callback of \<^verbatim>\<open>togglePlayback\<close> (\<^verbatim>\<open>setCurrentTime(elapsed)\<close>), the controls of the
  analysis settings, the help dialogue, the button "Cambiar Audio" (\<^verbatim>\<open>setFile(null)\<close>) and
  the end of the playback (\<^verbatim>\<open>setIsPlaying(false)\<close>). \<open>AnalysisDone\<close> is the callback of
  \<^verbatim>\<open>runAnalysis\<close> with the list that \<^verbatim>\<open>analyzeBeats\<close> returned. \<open>run\<close> takes the events
  in any order, so it reaches every state the component reaches.
\<close>

datatype event =
    FileUpload string
  | FileDecoded audio_buffer
  | RunAnalysis
  | AnalysisDone "marker list"
  | TogglePlayback
  | Progress real
  | DeleteMarker string
  | AddMarkerManual string
  | JumpToMarker string real
  | ClearAll
  | Restart
  | SetConfig analysis_config
  | SetShowHelp bool
  | ChangeAudio
  | PlaybackEnded

fun step :: "app_state \<Rightarrow> event \<Rightarrow> app_state" where
  "step s (FileUpload f) = handleFileUpload f s"
| "step s (FileDecoded b) = handleFileUpload_decoded b s"
| "step s RunAnalysis = runAnalysis s"
| "step s (AnalysisDone detected) = runAnalysis_timeout detected s"
| "step s TogglePlayback = togglePlayback s"
| "step s (Progress elapsed) = s\<lparr>currentTime := elapsed\<rparr>"
| "step s (DeleteMarker i) = deleteMarker i s"
| "step s (AddMarkerManual rnd) = addMarkerManual rnd s"
| "step s (JumpToMarker i t) = jumpToMarker i t s"
| "step s ClearAll = clearAll s"
| "step s Restart = restart s"
| "step s (SetConfig c) = s\<lparr>config := c\<rparr>"
| "step s (SetShowHelp b) = s\<lparr>showHelp := b\<rparr>"
| "step s ChangeAudio = s\<lparr>file := None\<rparr>"
| "step s PlaybackEnded = s\<lparr>isPlaying := False\<rparr>"

definition run :: "event list \<Rightarrow> app_state" where
  "run es = foldl step initial_state es"

section \<open>Export\<close>

text \<open>
  \<^verbatim>\<open>exportMarkers\<close> of \<^verbatim>\<open>services/exportService\<close>. A string is the list of its bytes in
  UTF-8. The conversion of a number to a string, which the template literals and
  \<^verbatim>\<open>JSON.stringify\<close> apply, belongs to the language and is the parameter \<open>numStr\<close>. The
  function builds a \<^verbatim>\<open>Blob\<close> and clicks a download link; the model returns what the
  browser is given.
\<close>

datatype ExportFormat = PREMIERE_XML | AFTER_EFFECTS_JS | FINAL_CUT_XML

record export_result =
  content :: string
  mimeType :: string
  extension :: string
  download :: string

definition nl :: string where
  "nl = [CHR 0x0A]"

definition timebase :: real where
  "timebase = 60"

text \<open>
  The arithmetic of IEEE 754 doubles, which \<^verbatim>\<open>m.time * timebase\<close> uses: the result is the
  double nearest to the exact product, the one of even significand of two. A double has
  53 significant bits and an exponent of at least \<open>-1022\<close>; numbers beyond the largest double
  are outside the model. \<open>binary_digits n\<close> is the number of binary digits of \<open>n\<close>,
  \<open>pow2 k\<close> is \<open>2\<close> to the power \<open>k\<close>, and \<open>ilog2 x\<close> is the exponent \<open>e\<close> of a positive \<open>x\<close>, with
  \<open>pow2 e \<le> x < pow2 (e + 1)\<close>.
\<close>

fun binary_digits :: "nat \<Rightarrow> nat" where
  "binary_digits n = (if n = 0 then 0 else Suc (binary_digits (n div 2)))"

declare binary_digits.simps [simp del]

definition pow2 :: "int \<Rightarrow> real" where
  "pow2 k = (if 0 \<le> k then 2 ^ nat k else 1 / 2 ^ nat (- k))"

definition ilog2 :: "real \<Rightarrow> int" where
  "ilog2 x =
     (if 1 \<le> x then int (binary_digits (nat \<lfloor>x\<rfloor>)) - 1
      else - int (binary_digits (nat (\<lceil>1 / x\<rceil> - 1))))"

definition roundTiesToEven :: "real \<Rightarrow> int" where
  "roundTiesToEven r =
     (let f = \<lfloor>r\<rfloor>
      in if r - of_int f < 1 / 2 then f
         else if 1 / 2 < r - of_int f then f + 1
         else if even f then f else f + 1)"

definition to_double :: "real \<Rightarrow> real" where
  "to_double x =
     (if x = 0 then 0
      else let ulp = pow2 (max (- 1022) (ilog2 \<bar>x\<bar>) - 52)
           in of_int (roundTiesToEven (x / ulp)) * ulp)"

text \<open>\<^verbatim>\<open>Math.round\<close>: the nearest integer, the larger one of two.\<close>

definition Math_round :: "real \<Rightarrow> int" where
  "Math_round x = \<lfloor>x + 1 / 2\<rfloor>"

text \<open>\<^verbatim>\<open>fileName.split('.')[0]\<close>: what stands before the first dot.\<close>

definition split_head :: "string \<Rightarrow> string" where
  "split_head fileName = takeWhile (\<lambda>c. c \<noteq> CHR ''.'') fileName"

text \<open>\<^verbatim>\<open>Array.prototype.join\<close>.\<close>

fun array_join :: "string \<Rightarrow> string list \<Rightarrow> string" where
  "array_join sep [] = []"
| "array_join sep [x] = x"
| "array_join sep (x # y # ys) = x @ sep @ array_join sep (y # ys)"

subsection \<open>The XMEML format, lines 11 to 46\<close>

definition premiere_marker :: "(real \<Rightarrow> string) \<Rightarrow> marker \<Rightarrow> string" where
  \<open>premiere_marker numStr m =
     (let frame = Math_round (to_double (time m * timebase))
      in nl @ ''        <marker>'' @ nl
         @ ''          <name>'' @ label m @ ''</name>'' @ nl
         @ ''          <comment>Beat detectado por BeatMarker Pro</comment>'' @ nl
         @ ''          <in>'' @ numStr (of_int frame) @ ''</in>'' @ nl
         @ ''          <out>'' @ numStr (of_int frame) @ ''</out>'' @ nl
         @ ''        </marker>'')\<close>

definition premiere_head :: "(real \<Rightarrow> string) \<Rightarrow> string \<Rightarrow> string" where
  \<open>premiere_head numStr fileName =
     ''<?xml version="1.0" encoding="UTF-8"?>'' @ nl
     @ ''<!DOCTYPE xmeml>'' @ nl
     @ ''<xmeml version="4">'' @ nl
     @ ''  <project>'' @ nl
     @ ''    <name>BeatMarker Pro Export</name>'' @ nl
     @ ''    <children>'' @ nl
     @ ''      <sequence>'' @ nl
     @ ''        <name>'' @ split_head fileName @ ''_Sequence</name>'' @ nl
     @ ''        <rate>'' @ nl
     @ ''          <timebase>'' @ numStr timebase @ ''</timebase>'' @ nl
     @ ''          <ntsc>FALSE</ntsc>'' @ nl
     @ ''        </rate>'' @ nl
     @ ''        <media>'' @ nl
     @ ''          <video>'' @ nl
     @ ''            <track></track>'' @ nl
     @ ''          </video>'' @ nl
     @ ''        </media>'' @ nl
     @ ''        ''\<close>

definition premiere_tail :: string where
  \<open>premiere_tail =
     nl @ ''      </sequence>'' @ nl
     @ ''    </children>'' @ nl
     @ ''  </project>'' @ nl
     @ ''</xmeml>''\<close>

definition premiere_content :: "(real \<Rightarrow> string) \<Rightarrow> marker list \<Rightarrow> string \<Rightarrow> string" where
  "premiere_content numStr ms fileName =
     premiere_head numStr fileName
     @ array_join [] (map (premiere_marker numStr) ms)
     @ premiere_tail"

subsection \<open>The script format, lines 48 to 62\<close>

text \<open>
  \<^verbatim>\<open>JSON.stringify\<close> on a string: the quotation mark, the backslash and the control
  characters are escaped, every other character stands for itself.
\<close>

definition hex_digit :: "nat \<Rightarrow> char" where
  "hex_digit n = ''0123456789abcdef'' ! (n mod 16)"

definition json_char :: "char \<Rightarrow> string" where
  "json_char c =
     (if c = CHR 0x08 then [CHR 0x5C, CHR ''b'']
      else if c = CHR 0x09 then [CHR 0x5C, CHR ''t'']
      else if c = CHR 0x0A then [CHR 0x5C, CHR ''n'']
      else if c = CHR 0x0C then [CHR 0x5C, CHR ''f'']
      else if c = CHR 0x0D then [CHR 0x5C, CHR ''r'']
      else if c = CHR 0x22 then [CHR 0x5C, CHR 0x22]
      else if c = CHR 0x5C then [CHR 0x5C, CHR 0x5C]
      else if (of_char c :: nat) < 32
        then [CHR 0x5C, CHR ''u'', CHR ''0'', CHR ''0'',
              hex_digit (of_char c div 16), hex_digit (of_char c)]
      else [c])"

definition JSON_quote :: "string \<Rightarrow> string" where
  "JSON_quote s = [CHR 0x22] @ concat (map json_char s) @ [CHR 0x22]"

text \<open>
  \<^verbatim>\<open>JSON.stringify\<close> on a marker and on the array of markers. The properties of an object
  are printed in the order of their creation: \<open>JSON_marker\<close> has the order of the object
  literal of \<^verbatim>\<open>addMarkerManual\<close>, the one construction of a marker in \<^verbatim>\<open>App.tsx\<close>. The
  theorems about all markers speak of one property at a time, so they do not depend on
  the order; the examples print markers of manual insertions.
\<close>

definition JSON_marker :: "(real \<Rightarrow> string) \<Rightarrow> marker \<Rightarrow> string" where
  \<open>JSON_marker numStr m =
     ''{"id":'' @ JSON_quote (id_m m)
     @ '',"time":'' @ numStr (time m)
     @ '',"label":'' @ JSON_quote (label m)
     @ '',"color":'' @ JSON_quote (color m) @ ''}''\<close>

definition JSON_stringify :: "(real \<Rightarrow> string) \<Rightarrow> marker list \<Rightarrow> string" where
  "JSON_stringify numStr ms = ''['' @ array_join '','' (map (JSON_marker numStr) ms) @ '']''"

definition after_effects_content :: "(real \<Rightarrow> string) \<Rightarrow> marker list \<Rightarrow> string" where
  \<open>after_effects_content numStr ms =
     ''(function() {'' @ nl
     @ ''  var layer = app.project.activeItem.selectedLayers[0];'' @ nl
     @ ''  if (!layer) { alert("'' @ [CHR 0xC2, CHR 0xA1]
     @ ''Selecciona una capa primero!"); return; }'' @ nl
     @ ''  var markers = '' @ JSON_stringify numStr ms @ '';'' @ nl
     @ ''  app.beginUndoGroup("Apply Beat Markers");'' @ nl
     @ ''  for (var i = 0; i < markers.length; i++) {'' @ nl
     @ ''    var myMarker = new MarkerValue(markers[i].label);'' @ nl
     @ ''    layer.property("Marker").setValueAtTime(markers[i].time, myMarker);'' @ nl
     @ ''  }'' @ nl
     @ ''  app.endUndoGroup();'' @ nl
     @ ''})();''\<close>

subsection \<open>The FCPXML format, lines 64 to 84\<close>

definition final_cut_marker :: "(real \<Rightarrow> string) \<Rightarrow> marker \<Rightarrow> string" where
  \<open>final_cut_marker numStr m =
     ''<marker start="'' @ numStr (time m) @ ''s" duration="0s" value="'' @ label m
     @ ''" />''\<close>

definition final_cut_content :: "(real \<Rightarrow> string) \<Rightarrow> marker list \<Rightarrow> string" where
  \<open>final_cut_content numStr ms =
     ''<?xml version="1.0" encoding="UTF-8"?>'' @ nl
     @ ''<fcpxml version="1.8">'' @ nl
     @ ''  <resources>'' @ nl
     @ ''    <format id="r1" name="FFVideoFormat1080p24" frameDuration="100/2400s"/>'' @ nl
     @ ''  </resources>'' @ nl
     @ ''  <library>'' @ nl
     @ ''    <event name="BeatMarker Export">'' @ nl
     @ ''      <project name="Beat Markers">'' @ nl
     @ ''        <sequence format="r1" duration="3600s">'' @ nl
     @ ''          <spine>'' @ nl
     @ ''            ''
     @ array_join (nl @ ''            '') (map (final_cut_marker numStr) ms)
     @ nl @ ''          </spine>'' @ nl
     @ ''        </sequence>'' @ nl
     @ ''      </project>'' @ nl
     @ ''    </event>'' @ nl
     @ ''  </library>'' @ nl
     @ ''</fcpxml>''\<close>

subsection \<open>The switch over the format\<close>

definition exportMarkers ::
  "(real \<Rightarrow> string) \<Rightarrow> marker list \<Rightarrow> ExportFormat \<Rightarrow> string \<Rightarrow> export_result" where
  "exportMarkers numStr ms format fileName =
     (case format of
        PREMIERE_XML \<Rightarrow>
          \<lparr>content = premiere_content numStr ms fileName, mimeType = ''application/xml'',
           extension = ''xml'', download = split_head fileName @ ''_markers.'' @ ''xml''\<rparr>
      | AFTER_EFFECTS_JS \<Rightarrow>
          \<lparr>content = after_effects_content numStr ms, mimeType = ''application/javascript'',
           extension = ''jsx'', download = split_head fileName @ ''_markers.'' @ ''jsx''\<rparr>
      | FINAL_CUT_XML \<Rightarrow>
          \<lparr>content = final_cut_content numStr ms, mimeType = ''application/xml'',
           extension = ''xml'', download = split_head fileName @ ''_markers.'' @ ''xml''\<rparr>)"

text \<open>
  What JavaScript prints for a non-negative number below \<open>10^12\<close> that is a multiple of
  0.001 or the double nearest to one: the digits of the integer part, and the decimals
  without their closing zeros when there are any. It stands for \<open>numStr\<close> in the examples,
  which print no other number.
\<close>

fun digits :: "nat \<Rightarrow> string" where
  "digits n =
     (if n < 10 then [''0123456789'' ! n]
      else digits (n div 10) @ [''0123456789'' ! (n mod 10)])"

definition toString_ms :: "real \<Rightarrow> string" where
  "toString_ms x =
     (let n = nat \<lfloor>x * 1000 + 1 / 2\<rfloor>;
          decimals = [''0123456789'' ! (n div 100 mod 10), ''0123456789'' ! (n div 10 mod 10),
                      ''0123456789'' ! (n mod 10)]
      in if n mod 1000 = 0 then digits (n div 1000)
         else digits (n div 1000) @ ''.'' @ rev (dropWhile (\<lambda>c. c = CHR ''0'') (rev decimals)))"

section \<open>Assumptions on what lies outside the component\<close>

text \<open>
  Modelled from the spec: \<^verbatim>\<open>analyzeBeats\<close> of \<^verbatim>\<open>services/audioEngine\<close> is not among the
  sources at hand. Sections 4.3 and 8 of the specification say that the markers it returns
  are ordered ascending by time; \<open>detected_ordered\<close> says so of the list an analysis hands
  to the component.
\<close>

fun detected_ordered :: "event \<Rightarrow> bool" where
  "detected_ordered (AnalysisDone detected) = sorted (map time detected)"
| "detected_ordered _ = True"

text \<open>
  The ids come from \<^verbatim>\<open>Math.random\<close> and from \<^verbatim>\<open>analyzeBeats\<close>. \<open>fresh_ids s es\<close> says of the
  events \<open>es\<close>, run from the state \<open>s\<close>, that each id drawn for a manual marker is the id of
  no marker of the timeline at that moment, and that each analysis returns markers of
  different ids.
\<close>

fun event_fresh :: "app_state \<Rightarrow> event \<Rightarrow> bool" where
  "event_fresh s (AddMarkerManual rnd) = (rnd \<notin> id_m ` set (markers s))"
| "event_fresh s (AnalysisDone detected) = distinct (map id_m detected)"
| "event_fresh s _ = True"

fun fresh_ids :: "app_state \<Rightarrow> event list \<Rightarrow> bool" where
  "fresh_ids s [] = True"
| "fresh_ids s (e # es) = (event_fresh s e \<and> fresh_ids (step s e) es)"

text \<open>
  The characters that \<^verbatim>\<open>JSON.stringify\<close> leaves as they are.
\<close>

definition json_plain :: "char \<Rightarrow> bool" where
  "json_plain c = (c \<noteq> CHR 0x22 \<and> c \<noteq> CHR 0x5C \<and> (32::nat) \<le> of_char c)"

section \<open>A session of the component\<close>

text \<open>
  A file is loaded, an analysis finds two beats, at 1 s and at 3 s, and the user adds a
  marker by hand while the playback stands at 2 s. In \<open>example_reanalysis\<close> the user then
  selects that marker and runs the analysis again.
\<close>

definition example_buffer :: audio_buffer where
  "example_buffer = \<lparr>sampleRate = 44100, channelData = [[0, 1 / 2, 0, - 1 / 2]]\<rparr>"

definition beat1 :: marker where
  "beat1 = \<lparr>id_m = ''a1b2c3d4e'', time = 1, label = ''Beat 1'', color = ''#3b82f6''\<rparr>"

definition beat2 :: marker where
  "beat2 = \<lparr>id_m = ''f5g6h7i8j'', time = 3, label = ''Beat 2'', color = ''#10b981''\<rparr>"

definition manual_q1 :: marker where
  "manual_q1 = \<lparr>id_m = ''k3x9q0zr7'', time = 2, label = ''Manual Beat'', color = ''#ec4899''\<rparr>"

definition example_session :: "event list" where
  "example_session =
     [FileUpload ''song.mp3'', FileDecoded example_buffer, RunAnalysis, AnalysisDone [beat1, beat2],
      Progress 2, AddMarkerManual ''k3x9q0zr7'']"

definition example_reanalysis :: "event list" where
  "example_reanalysis =
     example_session
     @ [JumpToMarker ''k3x9q0zr7'' 2, RunAnalysis, AnalysisDone [beat1, beat2]]"

definition example_state :: app_state where
  "example_state =
     \<lparr>file = Some ''song.mp3'', audioBuffer = Some example_buffer,
      markers = [beat1, manual_q1, beat2], isAnalyzing = False, showHelp = False,
      selectedMarkerId = None,
      config = \<lparr>sensitivity = 7 / 10, minDistance = 1 / 4, aggressiveMode = False\<rparr>,
      currentTime = 2, isPlaying = False\<rparr>"

text \<open>A marker added by hand at 4 ms, and a marker whose label holds a quotation mark.\<close>

definition manual_4ms :: marker where
  "manual_4ms = newMarker ''k3x9q0zr7'' (4 / 1000)"

text \<open>
  The markers that manual insertions at 4 ms, at 75 ms and at 1.025 s store: their times
  are the doubles nearest to 0.004, to 0.075 and to 1.025, which \<^verbatim>\<open>parseFloat\<close> gives.
\<close>

definition stored_4ms :: marker where
  "stored_4ms =
     \<lparr>id_m = ''k3x9q0zr7'', time = 4611686018427388 / 2 ^ 60, label = ''Manual Beat'',
      color = ''#ec4899''\<rparr>"

definition stored_75ms :: marker where
  "stored_75ms =
     \<lparr>id_m = ''m4n8p2r6t'', time = 5404319552844595 / 2 ^ 56, label = ''Manual Beat'',
      color = ''#ec4899''\<rparr>"

definition stored_1025ms :: marker where
  "stored_1025ms =
     \<lparr>id_m = ''w5y1u8s3v'', time = 4616189618054758 / 2 ^ 52, label = ''Manual Beat'',
      color = ''#ec4899''\<rparr>"

definition quoted_beat :: marker where
  \<open>quoted_beat = \<lparr>id_m = ''a1b2c3d4e'', time = 1, label = ''a"b'', color = ''red''\<rparr>\<close>

section \<open>Facts shared by the proofs\<close>

lemmas handler_defs =
  handleFileUpload_def handleFileUpload_decoded_def runAnalysis_def runAnalysis_timeout_def togglePlayback_def
  deleteMarker_def addMarkerManual_def jumpToMarker_def clearAll_def restart_def

lemmas example_defs =
  example_session_def example_state_def example_buffer_def beat1_def beat2_def manual_q1_def
  newMarker_def toFixed3_def initial_state_def run_def

lemmas state_defs = example_state_def beat1_def beat2_def manual_q1_def

lemmas double_defs =
  to_double_def ilog2_def pow2_def roundTiesToEven_def Let_def binary_digits.simps

lemmas export_defs = exportMarkers_def premiere_content_def premiere_marker_def premiere_head_def
  premiere_tail_def after_effects_content_def JSON_stringify_def JSON_marker_def JSON_quote_def
  json_char_def final_cut_content_def final_cut_marker_def nl_def split_head_def timebase_def
  Math_round_def toString_ms_def Let_def to_double_def ilog2_def pow2_def roundTiesToEven_def
  binary_digits.simps

lemma run_example_session: "run example_session = example_state"
  by (simp add: example_defs handler_defs)

lemma filter_absent_id: "i \<notin> id_m ` set ms \<Longrightarrow> filter (\<lambda>m. id_m m \<noteq> i) ms = ms"
  by (induction ms) auto

lemma step_sorted:
  "sorted (map time (markers s)) \<Longrightarrow> detected_ordered e \<Longrightarrow>
   sorted (map time (markers (step s e)))"
  by (cases e) (auto simp: handler_defs Let_def sorted_filter split: option.splits)

lemma foldl_step_sorted:
  "sorted (map time (markers s)) \<Longrightarrow> list_all detected_ordered es \<Longrightarrow>
   sorted (map time (markers (foldl step s es)))"
  by (induction es arbitrary: s) (auto simp: step_sorted)

lemma distinct_map_sort_key: "distinct (map f (sort_key g xs)) = distinct (map f xs)"
  by (rule mset_eq_imp_distinct_iff) simp

lemma step_distinct:
  "distinct (map id_m (markers s)) \<Longrightarrow> event_fresh s e \<Longrightarrow>
   distinct (map id_m (markers (step s e)))"
  by (cases e)
     (auto simp: handler_defs Let_def distinct_map_filter newMarker_def distinct_map_sort_key
       split: option.splits)

lemma foldl_step_distinct:
  "distinct (map id_m (markers s)) \<Longrightarrow> fresh_ids s es \<Longrightarrow>
   distinct (map id_m (markers (foldl step s es)))"
  by (induction es arbitrary: s) (auto simp: step_distinct)

text \<open>
  Sorting a sorted list with one more element at its end puts the element behind the
  elements that are not greater and before the greater ones.
\<close>

lemma insort_key_least: "\<forall>y\<in>set ys. f x \<le> f y \<Longrightarrow> insort_key f x ys = x # ys"
  by (cases ys) auto

lemma foldr_insort_sorted:
  "sorted (map f xs) \<Longrightarrow>
   foldr (insort_key f) xs [x]
     = filter (\<lambda>y. f y \<le> f x) xs @ [x] @ filter (\<lambda>y. f x < f y) xs"
proof (induction xs)
  case Nil
  then show ?case by simp
next
  case (Cons a xs)
  then have le: "\<forall>y\<in>set xs. f a \<le> f y" and srt: "sorted (map f xs)"
    by auto
  have IH: "foldr (insort_key f) xs [x]
              = filter (\<lambda>y. f y \<le> f x) xs @ [x] @ filter (\<lambda>y. f x < f y) xs"
    using Cons.IH srt by simp
  show ?case
  proof (cases "f a \<le> f x")
    case True
    then have "\<forall>y\<in>set (foldr (insort_key f) xs [x]). f a \<le> f y"
      using le IH by auto
    then have "insort_key f a (foldr (insort_key f) xs [x]) = a # foldr (insort_key f) xs [x]"
      by (rule insort_key_least)
    with True IH show ?thesis by simp
  next
    case False
    then have gt: "\<forall>y\<in>set xs. f x < f y"
      using le by force
    then have "filter (\<lambda>y. f y \<le> f x) xs = []" "filter (\<lambda>y. f x < f y) xs = xs"
      by (auto simp: filter_empty_conv filter_id_conv)
    with IH have "foldr (insort_key f) xs [x] = x # xs"
      by simp
    moreover have "insort_key f a xs = a # xs"
      using le by (rule insort_key_least)
    moreover have "filter (\<lambda>y. f y \<le> f x) (a # xs) = []"
      "filter (\<lambda>y. f x < f y) (a # xs) = a # xs"
      using False gt by (auto simp: filter_empty_conv filter_id_conv)
    ultimately show ?thesis
      using False by (simp del: filter.simps)
  qed
qed

lemma sort_key_snoc_sorted:
  "sorted (map f xs) \<Longrightarrow>
   sort_key f (xs @ [x]) = filter (\<lambda>y. f y \<le> f x) xs @ [x] @ filter (\<lambda>y. f x < f y) xs"
  using foldr_insort_sorted [of f xs x] by (simp add: sort_key_def)



subsection \<open>Rounding to doubles\<close>

lemma binary_digits_bounds: "0 < n \<Longrightarrow> 2 ^ (binary_digits n - 1) \<le> n \<and> n < 2 ^ binary_digits n"
proof (induction n rule: binary_digits.induct)
  case (1 n)
  show ?case
  proof (cases "n div 2 = 0")
    case True
    with 1 have "n = 1" by (simp add: div_eq_0_iff) 
    then show ?thesis by (simp add: binary_digits.simps)
  next
    case False
    then have IH: "2 ^ (binary_digits (n div 2) - 1) \<le> n div 2" "n div 2 < 2 ^ binary_digits (n div 2)"
      using 1 by auto
    have pos: "0 < binary_digits (n div 2)" using False by (simp add: binary_digits.simps)
    have b: "binary_digits n = Suc (binary_digits (n div 2))" using 1(2) by (simp add: binary_digits.simps)
    have eq: "(2::nat) ^ (binary_digits n - 1) = 2 * 2 ^ (binary_digits (n div 2) - 1)"
      using pos b by (cases "binary_digits (n div 2)") auto
    have "2 * (n div 2) \<le> n" by simp
    with IH(1) have lo: "2 ^ (binary_digits n - 1) \<le> n" unfolding eq by linarith
    have "n < 2 * (n div 2) + 2" by presburger
    with IH(2) have hi: "n < 2 ^ binary_digits n" unfolding b by simp
    from lo hi show ?thesis by simp
  qed
qed

lemma roundTiesToEven_near: "\<bar>of_int (roundTiesToEven r) - r\<bar> \<le> 1 / 2"
  unfolding roundTiesToEven_def Let_def by (auto; linarith)

lemma pow2_pos: "0 < pow2 k"
  by (simp add: pow2_def)

lemma pow2_powr: "pow2 k = 2 powr (of_int k)"
proof (cases "0 \<le> k")
  case True
  then have "(2::real) powr (of_int k) = 2 powr (real (nat k))" by simp
  also have "\<dots> = 2 ^ nat k" by (rule powr_realpow) simp
  finally show ?thesis using True by (simp add: pow2_def)
next
  case False
  then have "(2::real) powr (of_int k) = 2 powr (- real (nat (- k)))" by simp
  also have "\<dots> = 1 / 2 powr (real (nat (- k)))" by (simp add: powr_minus_divide)
  also have "\<dots> = 1 / 2 ^ nat (- k)" by (simp add: powr_realpow)
  finally show ?thesis using False by (simp add: pow2_def)
qed

lemma pow2_diff: "pow2 (k - 52) = pow2 k / 2 ^ 52"
proof -
  have "pow2 (k - 52) = 2 powr (of_int k - 52)" by (simp add: pow2_powr)
  also have "\<dots> = 2 powr (of_int k) / 2 powr 52" by (rule powr_diff)
  also have "(2::real) powr 52 = 2 ^ 52" by simp
  finally show ?thesis by (simp add: pow2_powr)
qed

lemma ilog2_le: 
  assumes "0 < x" shows "pow2 (ilog2 x) \<le> x"
proof (cases "1 \<le> x")
  case True
  define n where "n = nat \<lfloor>x\<rfloor>"
  have n: "0 < n" "real n \<le> x" using True by (auto simp: n_def)
  have d: "0 < binary_digits n" using n(1) by (simp add: binary_digits.simps)
  have "(2::nat) ^ (binary_digits n - 1) \<le> n" using binary_digits_bounds [OF n(1)] by simp
  then have "(2::real) ^ (binary_digits n - 1) \<le> real n"
    by (metis of_nat_le_iff of_nat_numeral of_nat_power)
  moreover have "pow2 (ilog2 x) = 2 ^ (binary_digits n - 1)"
    using True d by (simp add: ilog2_def pow2_def n_def nat_diff_distrib)
  ultimately show ?thesis using n(2) by linarith
next
  case False
  define n where "n = nat (\<lceil>1 / x\<rceil> - 1)"
  have big: "1 < 1 / x" using False assms by simp
  then have c: "2 \<le> \<lceil>1 / x\<rceil>" by linarith
  have n: "0 < n" "int n + 1 = \<lceil>1 / x\<rceil>" using c unfolding n_def by linarith+
  have "n < 2 ^ binary_digits n" using binary_digits_bounds [OF n(1)] by simp
  then have "n + 1 \<le> 2 ^ binary_digits n" by simp
  then have "real (n + 1) \<le> 2 ^ binary_digits n"
    by (metis of_nat_le_iff of_nat_numeral of_nat_power)
  moreover have "1 / x \<le> real (n + 1)" using n(2) by (metis le_of_int_ceiling of_int_of_nat_eq of_nat_Suc Suc_eq_plus1 of_int_add of_int_1 add.commute)
  ultimately have "1 / x \<le> 2 ^ binary_digits n" by linarith
  then have "1 / 2 ^ binary_digits n \<le> x"
    using assms by (simp add: field_simps)
  moreover have "pow2 (ilog2 x) = 1 / 2 ^ binary_digits n"
  proof -
    have d: "0 < binary_digits n"
      using n(1) by (simp add: binary_digits.simps)
    have "ilog2 x = - int (binary_digits n)"
      using False by (simp add: ilog2_def n_def)
    with d show ?thesis
      by (simp add: pow2_def)
  qed
  ultimately show ?thesis by simp
qed

text \<open>\<open>ilog2\<close> is the exponent: with \<open>ilog2_le\<close>, \<open>pow2 (ilog2 x) \<le> x < pow2 (ilog2 x + 1)\<close>.\<close>

lemma pow2_Suc: "pow2 (k + 1) = 2 * pow2 k"
proof -
  have "pow2 (k + 1) = 2 powr (of_int k + 1)" by (simp add: pow2_powr)
  also have "\<dots> = 2 powr (of_int k) * 2 powr 1" by (rule powr_add)
  finally show ?thesis by (simp add: pow2_powr)
qed

lemma ilog2_less:
  assumes "0 < x" shows "x < pow2 (ilog2 x + 1)"
proof (cases "1 \<le> x")
  case True
  define n where "n = nat \<lfloor>x\<rfloor>"
  have n: "0 < n" "x < real n + 1" using True unfolding n_def by linarith+
  have d: "0 < binary_digits n" using n(1) by (simp add: binary_digits.simps)
  have "n + 1 \<le> 2 ^ binary_digits n" using binary_digits_bounds [OF n(1)] by simp
  then have "real (n + 1) \<le> 2 ^ binary_digits n"
    by (metis of_nat_le_iff of_nat_numeral of_nat_power)
  moreover have "pow2 (ilog2 x + 1) = 2 ^ binary_digits n"
    using True d by (simp add: ilog2_def pow2_def n_def)
  ultimately show ?thesis using n(2) by simp
next
  case False
  define n where "n = nat (\<lceil>1 / x\<rceil> - 1)"
  have big: "1 < 1 / x" using False assms by simp
  then have c: "2 \<le> \<lceil>1 / x\<rceil>" by linarith
  have n: "0 < n" "int n + 1 = \<lceil>1 / x\<rceil>" using c unfolding n_def by linarith+
  have d: "0 < binary_digits n" using n(1) by (simp add: binary_digits.simps)
  have "(2::nat) ^ (binary_digits n - 1) \<le> n" using binary_digits_bounds [OF n(1)] by simp
  then have "(2::real) ^ (binary_digits n - 1) \<le> real n"
    by (metis of_nat_le_iff of_nat_numeral of_nat_power)
  moreover have "real n < 1 / x" using n(2) by linarith
  ultimately have "2 ^ (binary_digits n - 1) < 1 / x" by linarith
  then have lt: "x < 1 / 2 ^ (binary_digits n - 1)"
    using assms by (simp add: field_simps)
  have "ilog2 x = - int (binary_digits n)"
    using False by (simp add: ilog2_def n_def)
  then have "pow2 (ilog2 x + 1) = pow2 (- int (binary_digits n - 1))"
    using d by (simp add: of_nat_diff)
  also have "\<dots> = 1 / 2 ^ (binary_digits n - 1)"
    by (cases "binary_digits n - 1 = 0") (simp_all add: pow2_def)
  finally show ?thesis using lt by simp
qed

text \<open>A number and its double differ by at most half a unit in the last place.\<close>

lemma to_double_near: "\<bar>to_double x - x\<bar> \<le> \<bar>x\<bar> / 2 ^ 53 + 1 / 2 ^ 1075"
proof (cases "x = 0")
  case True
  then show ?thesis by (simp add: to_double_def)
next
  case False
  define e where "e = max (- 1022) (ilog2 \<bar>x\<bar>)"
  define u where "u = pow2 (e - 52)"
  have u: "0 < u" by (simp add: u_def pow2_pos)
  have td: "to_double x = of_int (roundTiesToEven (x / u)) * u"
    using False by (simp add: to_double_def Let_def u_def e_def)
  have "\<bar>of_int (roundTiesToEven (x / u)) - x / u\<bar> \<le> 1 / 2"
    by (rule roundTiesToEven_near)
  then have "\<bar>of_int (roundTiesToEven (x / u)) - x / u\<bar> * u \<le> 1 / 2 * u"
    using u by (intro mult_right_mono) auto
  moreover have "(of_int (roundTiesToEven (x / u)) - x / u) * u = to_double x - x"
    using u by (simp add: td left_diff_distrib)
  then have "\<bar>of_int (roundTiesToEven (x / u)) - x / u\<bar> * u = \<bar>to_double x - x\<bar>"
    using u by (metis abs_mult abs_of_pos)
  ultimately have near: "\<bar>to_double x - x\<bar> \<le> u / 2" by simp
  have "u / 2 \<le> \<bar>x\<bar> / 2 ^ 53 + 1 / 2 ^ 1075"
  proof (cases "ilog2 \<bar>x\<bar> \<le> - 1022")
    case True
    then have "e = - 1022" by (simp add: e_def)
    then have "u = 1 / 2 ^ 1074" by (simp add: u_def pow2_def)
    then have "u / 2 = 1 / 2 ^ 1075" by simp
    then show ?thesis by simp
  next
    case False
    then have "e = ilog2 \<bar>x\<bar>" by (simp add: e_def)
    then have "u = pow2 (ilog2 \<bar>x\<bar>) / 2 ^ 52" by (simp add: u_def pow2_diff)
    moreover have "pow2 (ilog2 \<bar>x\<bar>) \<le> \<bar>x\<bar>" using \<open>x \<noteq> 0\<close> by (intro ilog2_le) simp
    ultimately have "u / 2 \<le> \<bar>x\<bar> / 2 ^ 53" by (simp add: field_simps)
    then show ?thesis by (smt (verit) divide_nonneg_pos zero_less_power zero_less_numeral zero_le_one)
  qed
  with near show ?thesis by linarith
qed

subsection \<open>Parts of the exported text\<close>

lemma sublist_skip: "sublist x ys \<Longrightarrow> sublist x (ps @ ys)"
  by (simp add: sublist_append)

lemma sublist_array_join: "x \<in> set xs \<Longrightarrow> sublist x (array_join sep xs)"
  by (induction sep xs rule: array_join.induct) (auto simp: sublist_append)

lemma sublist_join_map:
  assumes "m \<in> set ms" and "sublist x (f m)"
  shows "sublist x (array_join sep (map f ms))"
proof -
  have "f m \<in> set (map f ms)"
    using assms(1) by simp
  then have "sublist (f m) (array_join sep (map f ms))"
    by (rule sublist_array_join)
  with assms(2) show ?thesis
    by (rule sublist_order.order_trans)
qed

lemma json_char_plain: "json_plain c \<Longrightarrow> json_char c = [c]"
  by (auto simp: json_plain_def json_char_def)

lemma JSON_quote_plain:
  assumes "list_all json_plain s"
  shows "JSON_quote s = [CHR 0x22] @ s @ [CHR 0x22]"
proof -
  from assms have "concat (map json_char s) = s"
    by (induction s) (auto simp: json_char_plain)
  then show ?thesis
    by (simp add: JSON_quote_def)
qed

lemma label_in_premiere_marker: "sublist (label m) (premiere_marker numStr m)"
  unfolding premiere_marker_def Let_def
  by (rule sublist_order.order_refl | rule sublist_append_rightI | rule sublist_skip)+

lemma label_in_final_cut_marker: "sublist (label m) (final_cut_marker numStr m)"
  unfolding final_cut_marker_def
  by (rule sublist_order.order_refl | rule sublist_append_rightI | rule sublist_skip)+

lemma label_in_JSON_marker: "sublist (JSON_quote (label m)) (JSON_marker numStr m)"
  unfolding JSON_marker_def
  by (rule sublist_order.order_refl | rule sublist_append_rightI | rule sublist_skip)+

lemma color_in_JSON_marker: "sublist (JSON_quote (color m)) (JSON_marker numStr m)"
  unfolding JSON_marker_def
  by (rule sublist_order.order_refl | rule sublist_append_rightI | rule sublist_skip)+

lemma time_in_JSON_marker:
  \<open>sublist (''"time":'' @ numStr (time m)) (JSON_marker numStr m)\<close>
proof -
  have \<open>JSON_marker numStr m
          = (''{"id":'' @ JSON_quote (id_m m) @ '','') @ (''"time":'' @ numStr (time m))
            @ ('',"label":'' @ JSON_quote (label m) @ '',"color":'' @ JSON_quote (color m) @ ''}'')\<close>
    by (simp add: JSON_marker_def)
  then show ?thesis
    unfolding sublist_def by blast
qed

lemma in_premiere_content:
  assumes "m \<in> set ms" and "sublist x (premiere_marker numStr m)"
  shows "sublist x (premiere_content numStr ms fileName)"
proof -
  have "sublist x (array_join [] (map (premiere_marker numStr) ms))"
    using assms by (rule sublist_join_map)
  then show ?thesis
    unfolding premiere_content_def
    by (rule sublist_order.order_trans)
       (rule sublist_order.order_refl | rule sublist_append_rightI | rule sublist_skip)+
qed

lemma in_final_cut_content:
  assumes "m \<in> set ms" and "sublist x (final_cut_marker numStr m)"
  shows "sublist x (final_cut_content numStr ms)"
proof -
  have "sublist x (array_join (nl @ ''            '') (map (final_cut_marker numStr) ms))"
    using assms by (rule sublist_join_map)
  then show ?thesis
    unfolding final_cut_content_def
    by (rule sublist_order.order_trans)
       (rule sublist_order.order_refl | rule sublist_append_rightI | rule sublist_skip)+
qed

lemma in_after_effects_content:
  assumes "m \<in> set ms" and "sublist x (JSON_marker numStr m)"
  shows "sublist x (after_effects_content numStr ms)"
proof -
  have "sublist x (array_join '','' (map (JSON_marker numStr) ms))"
    using assms by (rule sublist_join_map)
  then have "sublist x (JSON_stringify numStr ms)"
    unfolding JSON_stringify_def
    by (rule sublist_order.order_trans)
       (rule sublist_order.order_refl | rule sublist_append_rightI | rule sublist_skip)+
  then show ?thesis
    unfolding after_effects_content_def
    by (rule sublist_order.order_trans)
       (rule sublist_order.order_refl | rule sublist_append_rightI | rule sublist_skip)+
qed

lemma premiere_marker_color:
  "premiere_marker numStr (m\<lparr>color := c\<rparr>) = premiere_marker numStr m"
  by (simp add: premiere_marker_def)

lemma final_cut_marker_color:
  "final_cut_marker numStr (m\<lparr>color := c\<rparr>) = final_cut_marker numStr m"
  by (simp add: final_cut_marker_def)

lemma sublist_quoted: "sublist s ([CHR 0x22] @ s @ [CHR 0x22])"
  by (rule sublist_appendI)

section \<open>The marker timeline\<close>

text \<open>
  C3: removing an id that no marker of the timeline has leaves the marker list as it is,
  and a second \<^verbatim>\<open>deleteMarker\<close> with the same id leaves the whole state as the first
  one left it.
\<close>

theorem deleteMarker_absent_noop:
  "(i \<notin> id_m ` set (markers s) \<longrightarrow> markers (deleteMarker i s) = markers s)
   \<and> deleteMarker i (deleteMarker i s) = deleteMarker i s"
  by (simp add: deleteMarker_def Let_def filter_absent_id)

theorem deleteMarker_absent_noop_witness:
  "''zzzzzzzzz'' \<notin> id_m ` set (markers (run example_session))
   \<and> markers (deleteMarker ''zzzzzzzzz'' (run example_session)) = markers (run example_session)
   \<and> deleteMarker ''k3x9q0zr7'' (deleteMarker ''k3x9q0zr7'' (run example_session))
       = deleteMarker ''k3x9q0zr7'' (run example_session)
   \<and> markers (deleteMarker ''k3x9q0zr7'' (run example_session)) = [beat1, beat2]"
proof -
  have h: "''zzzzzzzzz'' \<notin> id_m ` set (markers (run example_session))"
    by (simp add: run_example_session state_defs)
  have m: "markers (deleteMarker ''k3x9q0zr7'' (run example_session)) = [beat1, beat2]"
    by (simp add: run_example_session state_defs deleteMarker_def)
  show ?thesis
    using h m deleteMarker_absent_noop [of "''zzzzzzzzz''" "run example_session"]
      deleteMarker_absent_noop [of "''k3x9q0zr7''" "run example_session"]
    by simp
qed

text \<open>
  C9: after \<^verbatim>\<open>deleteMarker\<close> the selected id is none if it was the deleted id, and is
  what it was otherwise.
\<close>

theorem deleteMarker_selection:
  "selectedMarkerId (deleteMarker i s)
     = (if selectedMarkerId s = Some i then None else selectedMarkerId s)"
  by (simp add: deleteMarker_def Let_def)

text \<open>
  C1: the marker list is sorted ascending by time in every state that the component
  reaches through analyses that hand over ordered lists, and every event keeps a sorted
  list sorted: the replacement by such an analysis, the manual insertion, the deletion and
  "clear all" among them. The manual insertion sorts whatever list it finds.
\<close>

theorem timeline_sorted:
  "(list_all detected_ordered es \<longrightarrow> sorted (map time (markers (run es))))
   \<and> (sorted (map time (markers s)) \<and> detected_ordered e
        \<longrightarrow> sorted (map time (markers (step s e))))
   \<and> sorted (map time (markers (addMarkerManual rnd s)))"
proof -
  have "sorted (map time (markers initial_state))"
    by (simp add: initial_state_def)
  then have "list_all detected_ordered es \<Longrightarrow> sorted (map time (markers (run es)))"
    unfolding run_def by (rule foldl_step_sorted)
  moreover have "sorted (map time (markers (addMarkerManual rnd s)))"
    by (simp add: addMarkerManual_def)
  ultimately show ?thesis
    using step_sorted by blast
qed

theorem timeline_sorted_witness:
  "list_all detected_ordered example_session
   \<and> sorted (map time (markers (run example_session)))
   \<and> detected_ordered (DeleteMarker ''a1b2c3d4e'')
   \<and> sorted (map time (markers (step (run example_session) (DeleteMarker ''a1b2c3d4e''))))
   \<and> map time (markers (run example_session)) = [1, 2, 3]"
proof -
  have h: "list_all detected_ordered example_session"
    by (simp add: example_session_def beat1_def beat2_def)
  have e: "detected_ordered (DeleteMarker ''a1b2c3d4e'')"
    by simp
  have v: "map time (markers (run example_session)) = [1, 2, 3]"
    by (simp add: run_example_session state_defs)
  show ?thesis
    using h e v
      timeline_sorted [of example_session "run example_session" "DeleteMarker ''a1b2c3d4e''"]
    by simp
qed

text \<open>
  C7: the manual insertion appends the new marker and sorts the list by time with a stable
  sort. The result is sorted and holds the markers of before and the new one; markers of
  one time keep the order they had with the new marker last; in a sorted timeline the new
  marker stands behind the markers whose time is not greater than its own and before the
  others. A marker inserted at 2.0 between markers at 1.0 and 3.0 gives the times
  1.0, 2.0, 3.0.
\<close>

theorem addMarkerManual_order:
  "sorted (map time (markers (addMarkerManual rnd s)))
   \<and> mset (markers (addMarkerManual rnd s))
       = mset (markers s) + {#newMarker rnd (currentTime s)#}
   \<and> filter (\<lambda>m. time m = k) (markers (addMarkerManual rnd s))
       = filter (\<lambda>m. time m = k) (markers s @ [newMarker rnd (currentTime s)])
   \<and> (sorted (map time (markers s)) \<longrightarrow>
        markers (addMarkerManual rnd s)
          = filter (\<lambda>m. time m \<le> time (newMarker rnd (currentTime s))) (markers s)
            @ [newMarker rnd (currentTime s)]
            @ filter (\<lambda>m. time (newMarker rnd (currentTime s)) < time m) (markers s))
   \<and> (time a = 1 \<and> time b = 3 \<longrightarrow>
        map time (markers (addMarkerManual rnd (s\<lparr>markers := [a, b], currentTime := 2\<rparr>)))
          = [1, 2, 3])"
proof -
  have "filter (\<lambda>m. time m = k) (markers (addMarkerManual rnd s))
          = filter (\<lambda>m. time m = k) (markers s @ [newMarker rnd (currentTime s)])"
    by (simp add: addMarkerManual_def sort_key_stable)
  moreover have "sorted (map time (markers s)) \<longrightarrow>
        markers (addMarkerManual rnd s)
          = filter (\<lambda>m. time m \<le> time (newMarker rnd (currentTime s))) (markers s)
            @ [newMarker rnd (currentTime s)]
            @ filter (\<lambda>m. time (newMarker rnd (currentTime s)) < time m) (markers s)"
    by (simp add: addMarkerManual_def sort_key_snoc_sorted)
  moreover have "time a = 1 \<and> time b = 3 \<longrightarrow>
        map time (markers (addMarkerManual rnd (s\<lparr>markers := [a, b], currentTime := 2\<rparr>)))
          = [1, 2, 3]"
    by (simp add: addMarkerManual_def newMarker_def toFixed3_def)
  ultimately show ?thesis
    by (simp add: addMarkerManual_def)
qed

theorem addMarkerManual_order_witness:
  "sorted (map time (markers (run example_session)))
   \<and> markers (addMarkerManual ''m4n8p2r6t'' (run example_session))
       = [beat1, manual_q1, newMarker ''m4n8p2r6t'' 2, beat2]
   \<and> time beat1 = 1 \<and> time beat2 = 3
   \<and> map time (markers (addMarkerManual ''k3x9q0zr7''
        (initial_state\<lparr>markers := [beat1, beat2], currentTime := 2\<rparr>))) = [1, 2, 3]"
proof -
  have h: "sorted (map time (markers (run example_session)))"
    by (simp add: run_example_session state_defs)
  have t: "time beat1 = 1 \<and> time beat2 = 3"
    by (simp add: beat1_def beat2_def)
  have c: "currentTime (run example_session) = 2"
    by (simp add: run_example_session example_state_def)
  show ?thesis
    using h t
      addMarkerManual_order [of "''m4n8p2r6t''" "run example_session" 0 beat1 beat2]
      addMarkerManual_order [of "''k3x9q0zr7''" initial_state 0 beat1 beat2]
    by (simp add: c run_example_session state_defs newMarker_def toFixed3_def)
qed


text \<open>
  C2: when the callback of \<^verbatim>\<open>runAnalysis\<close> has run, the marker list is the list of the
  detected markers, whatever the timeline held before and whatever happened between the
  start of the run and the callback; the list is replaced in one step.
\<close>

theorem runAnalysis_replaces_markers:
  "markers (runAnalysis_timeout detected s) = detected
   \<and> runAnalysis_timeout detected (s\<lparr>markers := previous\<rparr>) = runAnalysis_timeout detected s
   \<and> markers (foldl step (runAnalysis s) (es @ [AnalysisDone detected])) = detected"
  by (simp add: runAnalysis_timeout_def)

text \<open>
  C8: neither part of \<^verbatim>\<open>runAnalysis\<close> writes the selected id, and apart from the marker
  list and the busy flag the state is what it was. In the session below the selection holds
  the id of a manual marker that the analysis has replaced.
\<close>

theorem runAnalysis_frame:
  "selectedMarkerId (runAnalysis s) = selectedMarkerId s
   \<and> selectedMarkerId (runAnalysis_timeout detected s) = selectedMarkerId s
   \<and> (runAnalysis s)\<lparr>isAnalyzing := isAnalyzing s\<rparr> = s
   \<and> (runAnalysis_timeout detected s)\<lparr>markers := markers s, isAnalyzing := isAnalyzing s\<rparr> = s
   \<and> selectedMarkerId (run example_reanalysis) = Some ''k3x9q0zr7''
   \<and> ''k3x9q0zr7'' \<notin> id_m ` set (markers (run example_reanalysis))"
proof -
  have "run example_reanalysis
          = foldl step example_state
              [JumpToMarker ''k3x9q0zr7'' 2, RunAnalysis, AnalysisDone [beat1, beat2]]"
    using run_example_session by (simp add: run_def example_reanalysis_def)
  then show ?thesis
    by (simp add: runAnalysis_def runAnalysis_timeout_def jumpToMarker_def state_defs)
qed

text \<open>
  C4, as the code has it: the ids are random strings and nothing compares a new id with
  the ids of the timeline. The ids of the timeline are pairwise different in every state
  reached by events in which each id drawn for a manual marker is new to the timeline of
  that moment and each analysis returns markers of different ids.
\<close>

theorem fresh_ids_distinct:
  "fresh_ids initial_state es \<Longrightarrow> distinct (map id_m (markers (run es)))"
proof -
  assume "fresh_ids initial_state es"
  moreover have "distinct (map id_m (markers initial_state))"
    by (simp add: initial_state_def)
  ultimately show ?thesis
    unfolding run_def by (simp add: foldl_step_distinct)
qed

theorem fresh_ids_distinct_witness:
  "fresh_ids initial_state example_session
   \<and> distinct (map id_m (markers (run example_session)))
   \<and> map id_m (markers (run example_session)) = [''a1b2c3d4e'', ''k3x9q0zr7'', ''f5g6h7i8j'']"
proof -
  have h: "fresh_ids initial_state example_session"
    by (simp add: example_defs handler_defs)
  have v: "map id_m (markers (run example_session)) = [''a1b2c3d4e'', ''k3x9q0zr7'', ''f5g6h7i8j'']"
    by (simp add: run_example_session state_defs)
  show ?thesis
    using h v fresh_ids_distinct [OF h] by simp
qed

text \<open>
  C4, as the claim has it, fails: when \<^verbatim>\<open>Math.random\<close> gives the same string twice, two
  markers of the timeline have one id.
\<close>

theorem duplicate_id_counterexample:
  "\<not> distinct (map id_m (markers
        (run [FileUpload ''song.mp3'', FileDecoded example_buffer, AddMarkerManual ''k3x9q0zr7'',
              AddMarkerManual ''k3x9q0zr7''])))"
  by (simp add: example_defs handler_defs)

section \<open>The exported files\<close>

text \<open>
  C5, as the code has it: in the XMEML format the elements \<^verbatim>\<open>in\<close> and \<^verbatim>\<open>out\<close> of a marker
  hold the frame number \<^verbatim>\<open>Math.round(m.time * timebase)\<close> at 60 frames a second. The position
  so written is within half a frame, 1/120 s, of the marker's time, up to the rounding of
  the product to a double. The FCPXML format and the script format hand \<^verbatim>\<open>m.time\<close> itself to
  the conversion to a string. The files are made of these elements, one for each marker.
\<close>

theorem exported_position_precision:
  \<open>premiere_marker numStr m
     = nl @ ''        <marker>'' @ nl
       @ ''          <name>'' @ label m @ ''</name>'' @ nl
       @ ''          <comment>Beat detectado por BeatMarker Pro</comment>'' @ nl
       @ ''          <in>'' @ numStr (of_int (Math_round (to_double (time m * timebase))))
       @ ''</in>'' @ nl
       @ ''          <out>'' @ numStr (of_int (Math_round (to_double (time m * timebase))))
       @ ''</out>'' @ nl
       @ ''        </marker>''
   \<and> \<bar>of_int (Math_round (to_double (time m * timebase))) / timebase - time m\<bar>
       \<le> 1 / 120 + \<bar>time m\<bar> / 2 ^ 53 + 1 / 2 ^ 1075
   \<and> final_cut_marker numStr m
       = ''<marker start="'' @ numStr (time m) @ ''s" duration="0s" value="'' @ label m
         @ ''" />''
   \<and> sublist (''"time":'' @ numStr (time m)) (JSON_marker numStr m)
   \<and> content (exportMarkers numStr ms PREMIERE_XML fileName)
       = premiere_head numStr fileName @ array_join [] (map (premiere_marker numStr) ms)
         @ premiere_tail
   \<and> (m \<in> set ms \<longrightarrow>
        sublist (premiere_marker numStr m)
          (content (exportMarkers numStr ms PREMIERE_XML fileName))
        \<and> sublist (final_cut_marker numStr m)
            (content (exportMarkers numStr ms FINAL_CUT_XML fileName))
        \<and> sublist (JSON_marker numStr m)
            (content (exportMarkers numStr ms AFTER_EFFECTS_JS fileName)))\<close>
proof -
  define y where "y = to_double (time m * 60)"
  define c :: real where "c = 1 / 2 ^ 1075"
  have c: "0 \<le> c"
    by (simp add: c_def)
  have "\<bar>y - time m * 60\<bar> \<le> \<bar>time m * 60\<bar> / 2 ^ 53 + c"
    unfolding y_def c_def by (rule to_double_near)
  then have y: "\<bar>y - time m * 60\<bar> \<le> 60 * (\<bar>time m\<bar> / 2 ^ 53) + c"
    by (simp add: abs_mult)
  have "\<bar>of_int \<lfloor>y + 1 / 2\<rfloor> - y\<bar> \<le> 1 / 2"
    by linarith
  with y c have "\<bar>of_int \<lfloor>y + 1 / 2\<rfloor> / 60 - time m\<bar> \<le> 1 / 120 + \<bar>time m\<bar> / 2 ^ 53 + c"
    by linarith
  then have near:
    "\<bar>of_int (Math_round (to_double (time m * timebase))) / timebase - time m\<bar>
       \<le> 1 / 120 + \<bar>time m\<bar> / 2 ^ 53 + 1 / 2 ^ 1075"
    by (simp add: Math_round_def timebase_def y_def c_def)
  have inside: "m \<in> set ms \<Longrightarrow>
        sublist (premiere_marker numStr m)
          (content (exportMarkers numStr ms PREMIERE_XML fileName))
        \<and> sublist (final_cut_marker numStr m)
            (content (exportMarkers numStr ms FINAL_CUT_XML fileName))
        \<and> sublist (JSON_marker numStr m)
            (content (exportMarkers numStr ms AFTER_EFFECTS_JS fileName))"
    using in_premiere_content [of m ms "premiere_marker numStr m" numStr fileName]
      in_final_cut_content [of m ms "final_cut_marker numStr m" numStr]
      in_after_effects_content [of m ms "JSON_marker numStr m" numStr]
    by (simp add: exportMarkers_def)
  have whole: "content (exportMarkers numStr ms PREMIERE_XML fileName)
       = premiere_head numStr fileName @ array_join [] (map (premiere_marker numStr) ms)
         @ premiere_tail"
    by (simp add: exportMarkers_def premiere_content_def)
  show ?thesis
    using near inside whole time_in_JSON_marker [of numStr m]
    by (simp add: premiere_marker_def final_cut_marker_def Let_def)
qed

text \<open>
  Witness of C5: the markers stored at 75 ms and at 1.025 s, exported together. The
  XMEML format prints the frames 5 and 61; the first is more than 1/120 s away from the
  marker's time, by the rounding of the product. The other formats print 0.075 and 1.025.
\<close>

theorem exported_position_precision_witness:
  \<open>stored_1025ms \<in> set [stored_75ms, stored_1025ms]
   \<and> time stored_75ms = to_double (75 / 1000) \<and> time stored_1025ms = to_double (1025 / 1000)
   \<and> premiere_marker toString_ms stored_75ms
       = nl @ ''        <marker>'' @ nl
         @ ''          <name>Manual Beat</name>'' @ nl
         @ ''          <comment>Beat detectado por BeatMarker Pro</comment>'' @ nl
         @ ''          <in>5</in>'' @ nl
         @ ''          <out>5</out>'' @ nl
         @ ''        </marker>''
   \<and> premiere_marker toString_ms stored_1025ms
       = nl @ ''        <marker>'' @ nl
         @ ''          <name>Manual Beat</name>'' @ nl
         @ ''          <comment>Beat detectado por BeatMarker Pro</comment>'' @ nl
         @ ''          <in>61</in>'' @ nl
         @ ''          <out>61</out>'' @ nl
         @ ''        </marker>''
   \<and> 1 / 120 < \<bar>5 / 60 - time stored_75ms\<bar>
   \<and> \<bar>5 / 60 - time stored_75ms\<bar> \<le> 1 / 120 + \<bar>time stored_75ms\<bar> / 2 ^ 53 + 1 / 2 ^ 1075
   \<and> \<bar>61 / 60 - time stored_1025ms\<bar> \<le> 1 / 120
   \<and> content (exportMarkers toString_ms [stored_75ms, stored_1025ms] PREMIERE_XML ''song.mp3'')
       = premiere_head toString_ms ''song.mp3''
         @ premiere_marker toString_ms stored_75ms @ premiere_marker toString_ms stored_1025ms
         @ premiere_tail
   \<and> sublist ''<marker start="1.025s" duration="0s" value="Manual Beat" />''
        (content (exportMarkers toString_ms [stored_75ms, stored_1025ms] FINAL_CUT_XML
           ''song.mp3''))
   \<and> sublist ''{"id":"w5y1u8s3v","time":1.025,"label":"Manual Beat","color":"#ec4899"}''
        (content (exportMarkers toString_ms [stored_75ms, stored_1025ms] AFTER_EFFECTS_JS
           ''song.mp3''))\<close>
proof -
  have h: "stored_1025ms \<in> set [stored_75ms, stored_1025ms]"
    by simp
  have t: "time stored_75ms = to_double (75 / 1000)"
    "time stored_1025ms = to_double (1025 / 1000)"
    by (simp_all add: stored_75ms_def stored_1025ms_def double_defs)
  have f: "Math_round (to_double (time stored_75ms * timebase)) = 5"
    "Math_round (to_double (time stored_1025ms * timebase)) = 61"
    by (simp_all add: stored_75ms_def stored_1025ms_def timebase_def Math_round_def double_defs)
  have n: "toString_ms 5 = ''5''" "toString_ms 61 = ''61''"
    "toString_ms (time stored_1025ms) = ''1.025''"
    by (simp_all add: toString_ms_def stored_1025ms_def Let_def)
  have l: "label stored_75ms = ''Manual Beat''" "label stored_1025ms = ''Manual Beat''"
    by (simp_all add: stored_75ms_def stored_1025ms_def)
  have far: "1 / 120 < \<bar>5 / 60 - time stored_75ms\<bar>"
    "\<bar>61 / 60 - time stored_1025ms\<bar> \<le> 1 / 120"
    by (simp_all add: stored_75ms_def stored_1025ms_def)
  have j: \<open>JSON_marker toString_ms stored_1025ms
             = ''{"id":"w5y1u8s3v","time":1.025,"label":"Manual Beat","color":"#ec4899"}''\<close>
    by (simp add: JSON_marker_def JSON_quote_def json_char_def toString_ms_def
          stored_1025ms_def Let_def)
  note a = exported_position_precision
             [of toString_ms stored_75ms "[stored_75ms, stored_1025ms]" "''song.mp3''"]
  note b = exported_position_precision
             [of toString_ms stored_1025ms "[stored_75ms, stored_1025ms]" "''song.mp3''"]
  have p75: \<open>premiere_marker toString_ms stored_75ms
       = nl @ ''        <marker>'' @ nl
         @ ''          <name>Manual Beat</name>'' @ nl
         @ ''          <comment>Beat detectado por BeatMarker Pro</comment>'' @ nl
         @ ''          <in>5</in>'' @ nl
         @ ''          <out>5</out>'' @ nl
         @ ''        </marker>''\<close>
    using a [THEN conjunct1] by (simp add: f n l)
  have p1025: \<open>premiere_marker toString_ms stored_1025ms
       = nl @ ''        <marker>'' @ nl
         @ ''          <name>Manual Beat</name>'' @ nl
         @ ''          <comment>Beat detectado por BeatMarker Pro</comment>'' @ nl
         @ ''          <in>61</in>'' @ nl
         @ ''          <out>61</out>'' @ nl
         @ ''        </marker>''\<close>
    using b [THEN conjunct1] by (simp add: f n l)
  have near: "\<bar>5 / 60 - time stored_75ms\<bar> \<le> 1 / 120 + \<bar>time stored_75ms\<bar> / 2 ^ 53 + 1 / 2 ^ 1075"
    using a [THEN conjunct2, THEN conjunct1] unfolding f by (simp add: timebase_def)
  have whole:
    "content (exportMarkers toString_ms [stored_75ms, stored_1025ms] PREMIERE_XML ''song.mp3'')
       = premiere_head toString_ms ''song.mp3''
         @ premiere_marker toString_ms stored_75ms @ premiere_marker toString_ms stored_1025ms
         @ premiere_tail"
    using a by simp
  have fc: \<open>final_cut_marker toString_ms stored_1025ms
              = ''<marker start="1.025s" duration="0s" value="Manual Beat" />''\<close>
    using b by (simp add: n l)
  have inside:
    "sublist (final_cut_marker toString_ms stored_1025ms)
       (content (exportMarkers toString_ms [stored_75ms, stored_1025ms] FINAL_CUT_XML
          ''song.mp3''))"
    "sublist (JSON_marker toString_ms stored_1025ms)
       (content (exportMarkers toString_ms [stored_75ms, stored_1025ms] AFTER_EFFECTS_JS
          ''song.mp3''))"
    using b h by blast+
  show ?thesis
    using h t far p75 p1025 near whole inside
    unfolding fc j
    by (intro conjI)
qed

text \<open>
  C5, as the claim has it, fails: for the marker stored at 4 ms the XMEML format prints
  frame 0, which is 4 ms away, and the file is the one of a marker at 0 s.
\<close>

theorem premiere_precision_counterexample:
  \<open>\<not> \<bar>of_int (Math_round (to_double (time stored_4ms * timebase))) / timebase
         - time stored_4ms\<bar> < 1 / 1000
   \<and> time stored_4ms = to_double (time manual_4ms)
   \<and> premiere_marker toString_ms stored_4ms
       = nl @ ''        <marker>'' @ nl
         @ ''          <name>Manual Beat</name>'' @ nl
         @ ''          <comment>Beat detectado por BeatMarker Pro</comment>'' @ nl
         @ ''          <in>0</in>'' @ nl
         @ ''          <out>0</out>'' @ nl
         @ ''        </marker>''
   \<and> exportMarkers toString_ms [stored_4ms] PREMIERE_XML ''song.mp3''
       = exportMarkers toString_ms [stored_4ms\<lparr>time := 0\<rparr>] PREMIERE_XML ''song.mp3''\<close>
  by (simp add: stored_4ms_def manual_4ms_def newMarker_def toFixed3_def exportMarkers_def
        premiere_content_def premiere_marker_def Math_round_def timebase_def toString_ms_def
        double_defs)

text \<open>
  C6, as the code has it: the two XML formats print the label of each marker as it is and
  do not print its colour, so the file is the same whatever the colours are; the script
  format prints the label and the colour of each marker as JSON strings, which hold the
  string as it is when it has no quotation mark, backslash or control character.
\<close>

theorem export_label_color:
  "(m \<in> set ms \<longrightarrow>
      sublist (label m) (content (exportMarkers numStr ms PREMIERE_XML fileName))
      \<and> sublist (label m) (content (exportMarkers numStr ms FINAL_CUT_XML fileName))
      \<and> sublist (JSON_quote (label m)) (content (exportMarkers numStr ms AFTER_EFFECTS_JS fileName))
      \<and> sublist (JSON_quote (color m)) (content (exportMarkers numStr ms AFTER_EFFECTS_JS fileName))
      \<and> (list_all json_plain (label m) \<longrightarrow>
           sublist (label m) (content (exportMarkers numStr ms AFTER_EFFECTS_JS fileName)))
      \<and> (list_all json_plain (color m) \<longrightarrow>
           sublist (color m) (content (exportMarkers numStr ms AFTER_EFFECTS_JS fileName))))
   \<and> exportMarkers numStr (map (\<lambda>m. m\<lparr>color := c\<rparr>) ms) PREMIERE_XML fileName
       = exportMarkers numStr ms PREMIERE_XML fileName
   \<and> exportMarkers numStr (map (\<lambda>m. m\<lparr>color := c\<rparr>) ms) FINAL_CUT_XML fileName
       = exportMarkers numStr ms FINAL_CUT_XML fileName"
proof -
  have same:
    "exportMarkers numStr (map (\<lambda>m. m\<lparr>color := c\<rparr>) ms) PREMIERE_XML fileName
       = exportMarkers numStr ms PREMIERE_XML fileName"
    "exportMarkers numStr (map (\<lambda>m. m\<lparr>color := c\<rparr>) ms) FINAL_CUT_XML fileName
       = exportMarkers numStr ms FINAL_CUT_XML fileName"
    by (simp_all add: exportMarkers_def premiere_content_def final_cut_content_def comp_def
          premiere_marker_color final_cut_marker_color)
  have inside: ?thesis if mem: "m \<in> set ms"
  proof -
    have p: "sublist (label m) (content (exportMarkers numStr ms PREMIERE_XML fileName))"
      using in_premiere_content [OF mem label_in_premiere_marker]
      by (simp add: exportMarkers_def)
    have f: "sublist (label m) (content (exportMarkers numStr ms FINAL_CUT_XML fileName))"
      using in_final_cut_content [OF mem label_in_final_cut_marker]
      by (simp add: exportMarkers_def)
    have l: "sublist (JSON_quote (label m))
               (content (exportMarkers numStr ms AFTER_EFFECTS_JS fileName))"
      using in_after_effects_content [OF mem label_in_JSON_marker]
      by (simp add: exportMarkers_def)
    have k: "sublist (JSON_quote (color m))
               (content (exportMarkers numStr ms AFTER_EFFECTS_JS fileName))"
      using in_after_effects_content [OF mem color_in_JSON_marker]
      by (simp add: exportMarkers_def)
    have l': "sublist (label m) (content (exportMarkers numStr ms AFTER_EFFECTS_JS fileName))"
      if "list_all json_plain (label m)"
      using l sublist_quoted [of "label m"] JSON_quote_plain [OF that]
      by (metis sublist_order.order_trans)
    have k': "sublist (color m) (content (exportMarkers numStr ms AFTER_EFFECTS_JS fileName))"
      if "list_all json_plain (color m)"
      using k sublist_quoted [of "color m"] JSON_quote_plain [OF that]
      by (metis sublist_order.order_trans)
    show ?thesis
      using p f l k l' k' same by blast
  qed
  show ?thesis
  proof (cases "m \<in> set ms")
    case True
    then show ?thesis by (rule inside)
  next
    case False
    then show ?thesis using same by blast
  qed
qed

theorem export_label_color_witness:
  "manual_4ms \<in> set [manual_4ms]
   \<and> list_all json_plain (label manual_4ms) \<and> list_all json_plain (color manual_4ms)
   \<and> sublist ''Manual Beat''
        (content (exportMarkers toString_ms [manual_4ms] PREMIERE_XML ''song.mp3''))
   \<and> sublist ''Manual Beat''
        (content (exportMarkers toString_ms [manual_4ms] FINAL_CUT_XML ''song.mp3''))
   \<and> sublist ''Manual Beat''
        (content (exportMarkers toString_ms [manual_4ms] AFTER_EFFECTS_JS ''song.mp3''))
   \<and> sublist ''#ec4899''
        (content (exportMarkers toString_ms [manual_4ms] AFTER_EFFECTS_JS ''song.mp3''))"
proof -
  have h: "manual_4ms \<in> set [manual_4ms]"
    by simp
  have e: "label manual_4ms = ''Manual Beat''" "color manual_4ms = ''#ec4899''"
    by (simp_all add: manual_4ms_def newMarker_def)
  have q: "list_all json_plain (label manual_4ms)" "list_all json_plain (color manual_4ms)"
    unfolding e by (simp_all add: json_plain_def)
  show ?thesis
    using h q
      export_label_color [of manual_4ms "[manual_4ms]" toString_ms "''song.mp3''" "''red''"]
    unfolding e by blast
qed

text \<open>
  C6, as the claim has it, fails: the XMEML file and the FCPXML file of a marker added by
  hand do not hold its colour, and the script of a marker whose label holds a quotation
  mark holds the label with the mark escaped.
\<close>

theorem export_color_counterexample:
  "\<not> sublist (color manual_4ms)
        (content (exportMarkers toString_ms [manual_4ms] PREMIERE_XML ''song.mp3''))
   \<and> \<not> sublist (color manual_4ms)
        (content (exportMarkers toString_ms [manual_4ms] FINAL_CUT_XML ''song.mp3''))
   \<and> \<not> sublist (label quoted_beat)
        (content (exportMarkers toString_ms [quoted_beat] AFTER_EFFECTS_JS ''song.mp3''))"
  by (simp add: export_defs manual_4ms_def newMarker_def toFixed3_def quoted_beat_def
        sublist_code(3))

end
